theory Spec2Isabelle
  imports Main
begin

section \<open>Data model of \<open>puckfetcher/subscription.py\<close>\<close>

text \<open>
  The enum \<open>UpdateResult\<close> and the exceptions the modelled code can raise.
  \<open>DownloadError\<close> stands for any exception other than \<open>KeyboardInterrupt\<close>
  that escapes the pluggable downloader.
\<close>

datatype UpdateResult = SUCCESS | UNNEEDED | FAILURE | ATTEMPT_AGAIN

datatype py_error = TypeError | IndexError | AttributeError | KeyError | DownloadError

text \<open>
  An entry as \<open>_FeedState.load_rss_info\<close> builds it: a dict with the keys
  \<open>title\<close> and \<open>urls\<close>.
\<close>

record entry =
  title :: string
  urls :: "string list"

text \<open>
  The class \<open>_FeedState\<close>. The field \<open>feed\<close> (a dict that no method reads or
  writes after construction) is left out. \<open>last_modified\<close> is an abstract time stamp.
\<close>

record FeedState =
  entries :: "entry list"
  entries_state_dict :: "int \<rightharpoonup> bool"
  queue :: "(int \<times> bool) list"
  last_modified :: "nat option"
  etag :: "string option"
  latest_entry_number :: "int option"
  has_state :: bool

text \<open>
  The class \<open>Subscription\<close>. \<open>_provided_url\<close>, \<open>_current_url\<close> and \<open>_temp_url\<close>
  lose their leading underscore. Fields that Python may hold as \<open>None\<close> are options.
\<close>

record subscription =
  name :: string
  provided_url :: string
  current_url :: "string option"
  temp_url :: "string option"
  directory :: "string option"
  download_backlog :: "bool option"
  backlog_limit :: "int option"
  use_title_as_filename :: "bool option"
  feed_state :: FeedState

text \<open>\<open>_FeedState()\<close> with no dict: the empty feed state.\<close>

definition FeedState_init :: FeedState where
  "FeedState_init =
     \<lparr> entries = [], entries_state_dict = Map.empty, queue = [],
       last_modified = None, etag = None, latest_entry_number = None,
       has_state = False \<rparr>"

section \<open>Python list indexing\<close>

text \<open>
  \<open>xs[i]\<close> in Python: a negative index counts from the end, and an index outside
  \<open>-len(xs) .. len(xs)-1\<close> raises \<open>IndexError\<close> (here \<open>None\<close>).
\<close>

definition py_index :: "'a list \<Rightarrow> int \<Rightarrow> 'a option" where
  "py_index xs i =
     (if 0 \<le> i \<and> i < int (length xs) then Some (xs ! nat i)
      else if i < 0 \<and> - int (length xs) \<le> i then Some (xs ! nat (int (length xs) + i))
      else None)"

section \<open>The download queue: \<open>Subscription.download_queue\<close>\<close>

text \<open>
  The downloader comes from \<open>Util.generate_downloader\<close> and the file name rule
  \<open>_get_dest\<close> needs \<open>Util.sanitize\<close> and the platform; the module
  \<open>puckfetcher.util\<close> is not available, and both are parameters. A call of the
  downloader returns, is cut short by \<open>KeyboardInterrupt\<close>, or raises something
  else. An interrupt is taken to arrive during a download, where the loop spends
  its time.
\<close>

datatype dl_outcome = Downloaded | Interrupted | Failed

type_synonym downloader = "string \<Rightarrow> string \<Rightarrow> bool \<Rightarrow> dl_outcome"

type_synonym get_dest = "string \<Rightarrow> string \<Rightarrow> string \<Rightarrow> string"

text \<open>\<open>os.path.join\<close> of two POSIX path components.\<close>

definition path_join :: "string \<Rightarrow> string \<Rightarrow> string" where
  "path_join a b =
     (if b \<noteq> [] \<and> hd b = CHR ''/'' then b
      else if a = [] \<or> last a = CHR ''/'' then a @ b
      else a @ ''/'' @ b)"

text \<open>The loop \<open>for i, url in enumerate(urls)\<close> of lines 248-257.\<close>

fun download_urls :: "downloader \<Rightarrow> get_dest \<Rightarrow> string \<Rightarrow> string \<Rightarrow> bool \<Rightarrow> string list \<Rightarrow> dl_outcome" where
  "download_urls dl gd ttl dir ow [] = Downloaded"
| "download_urls dl gd ttl dir ow (url # rest) =
     (case dl url (gd url ttl dir) ow of
        Downloaded \<Rightarrow> download_urls dl gd ttl dir ow rest
      | Interrupted \<Rightarrow> Interrupted
      | Failed \<Rightarrow> Failed)"

text \<open>
  One pass through the body of the \<open>while\<close> loop (lines 225-264), for the item
  that \<open>popleft\<close> has just taken from the queue. The pass ends in one of three ways:
  the loop goes on, the \<open>except KeyboardInterrupt\<close> handler (line 267) has run and
  \<open>download_queue\<close> returns, or another exception leaves the method.
\<close>

datatype drain_step = Continue subscription | Stopped subscription | Raised py_error subscription

text \<open>
  Lines 259-262: the watermark and the downloaded flag, for the zero-based
  \<open>entry_num\<close>. Comparing an int with \<open>None\<close> raises \<open>TypeError\<close> in Python 3.
\<close>

definition record_download :: "subscription \<Rightarrow> int \<Rightarrow> drain_step" where
  "record_download s entry_num =
     (let fs = feed_state s
      in case latest_entry_number fs of
           None \<Rightarrow> Raised TypeError s
         | Some latest \<Rightarrow>
             Continue (s\<lparr>feed_state := fs
               \<lparr>latest_entry_number := Some (if entry_num > latest then entry_num else latest),
                entries_state_dict := (entries_state_dict fs)(entry_num \<mapsto> True)\<rparr>\<rparr>))"

definition drain_item :: "downloader \<Rightarrow> get_dest \<Rightarrow> subscription \<Rightarrow> int \<times> bool \<Rightarrow> drain_step" where
  "drain_item dl gd s item =
     (let fs = feed_state s;
          overwrite = snd item;
          entry_num = fst item - 1;
          num_entries = int (length (entries fs));
          entry_age = num_entries - (entry_num + 1)
      in case py_index (entries fs) entry_age of
           None \<Rightarrow> Raised IndexError s
         | Some entry \<Rightarrow>
             (let num_entry_files = length (urls entry)
              in case directory s of
                   None \<Rightarrow>
                     \<comment> \<open>\<open>os.path.join(None, ...)\<close> raises as soon as there is a file to place\<close>
                     (if urls entry = [] then record_download s entry_num
                      else Raised TypeError s)
                 | Some dir0 \<Rightarrow>
                     (let dir = (if num_entry_files > 1 then path_join dir0 (title entry) else dir0)
                      in case download_urls dl gd (title entry) dir overwrite (urls entry) of
                           Interrupted \<Rightarrow>
                             Stopped (s\<lparr>feed_state := fs\<lparr>queue := (entry_num, True) # queue fs\<rparr>\<rparr>)
                         | Failed \<Rightarrow> Raised DownloadError s
                         | Downloaded \<Rightarrow> record_download s entry_num)))"

lemma drain_item_Continue_queue:
  "drain_item dl gd s item = Continue s' \<Longrightarrow> queue (feed_state s') = queue (feed_state s)"
  by (auto simp: drain_item_def record_download_def Let_def
      split: option.splits if_splits dl_outcome.splits)

text \<open>
  \<open>download_queue\<close>: the \<open>while self.feed_state.queue\<close> loop. The result is the
  exception that left the method, if any, and the subscription as the method left it.
\<close>

function download_queue :: "downloader \<Rightarrow> get_dest \<Rightarrow> subscription \<Rightarrow> py_error option \<times> subscription" where
  "download_queue dl gd s =
     (case queue (feed_state s) of
        [] \<Rightarrow> (None, s)
      | item # rest \<Rightarrow>
          (case drain_item dl gd (s\<lparr>feed_state := (feed_state s)\<lparr>queue := rest\<rparr>\<rparr>) item of
             Continue s' \<Rightarrow> download_queue dl gd s'
           | Stopped s' \<Rightarrow> (None, s')
           | Raised e s' \<Rightarrow> (Some e, s')))"
  by pat_completeness auto
termination
proof (relation "measure (\<lambda>(dl, gd, s). length (queue (feed_state s)))")
  show "wf (measure (\<lambda>(dl, gd, s). length (queue (feed_state s))))"
    by simp
next
  fix dl :: downloader and gd :: get_dest and s :: subscription
    and item rest s'
  assume q: "queue (feed_state s) = item # rest"
    and c: "drain_item dl gd (s\<lparr>feed_state := (feed_state s)\<lparr>queue := rest\<rparr>\<rparr>) item = Continue s'"
  from drain_item_Continue_queue [OF c] have "queue (feed_state s') = rest"
    by simp
  with q show "((dl, gd, s'), (dl, gd, s)) \<in> measure (\<lambda>(dl, gd, s). length (queue (feed_state s)))"
    by simp
qed

declare download_queue.simps [simp del]

section \<open>\<open>Subscription.enqueue\<close>\<close>

text \<open>
  The test \<open>num not in self.feed_state.queue\<close> compares the int \<open>num\<close> with the
  elements of the deque by \<open>==\<close>. The elements are the pairs \<open>(index, overwrite)\<close>
  that \<open>attempt_update\<close> and \<open>enqueue\<close> append, so the comparison is one between
  Python values of different shapes.
\<close>

datatype pyval = PyInt int | PyTuple int bool

fun py_eq :: "pyval \<Rightarrow> pyval \<Rightarrow> bool" where
  "py_eq (PyInt a) (PyInt b) = (a = b)"
| "py_eq (PyTuple a x) (PyTuple b y) = (a = b \<and> x = y)"
| "py_eq (PyInt a) (PyTuple b y) = False"
| "py_eq (PyTuple a x) (PyInt b) = False"

definition py_in :: "pyval \<Rightarrow> pyval list \<Rightarrow> bool" where
  "py_in v vs = list_ex (py_eq v) vs"

definition queue_values :: "FeedState \<Rightarrow> pyval list" where
  "queue_values fs = map (\<lambda>(i, ow). PyTuple i ow) (queue fs)"

text \<open>
  \<open>enqueue\<close> (lines 269-280): the loop collects \<open>actual_nums\<close>, the queue is extended
  once after the loop, and \<open>actual_nums\<close> is returned.
\<close>

definition enqueue :: "subscription \<Rightarrow> int list \<Rightarrow> (int \<times> bool) list \<times> subscription" where
  "enqueue s nums =
     (let fs = feed_state s;
          actual_nums =
            map (\<lambda>num. (num, True))
              (filter (\<lambda>num. num > 0 \<and> num \<le> int (length (entries fs))
                            \<and> \<not> py_in (PyInt num) (queue_values fs)) nums)
      in (actual_nums, s\<lparr>feed_state := fs\<lparr>queue := queue fs @ actual_nums\<rparr>\<rparr>))"

section \<open>Backlog planning: \<open>Subscription.attempt_update\<close>, lines 159-208\<close>

text \<open>
  Modelled from the spec: \<open>Util.max_clamp\<close> belongs to the module
  \<open>puckfetcher.util\<close>, which is not available; the specification says the limit is
  clamped to the minimum of the backlog limit and the number of entries.
\<close>

definition max_clamp :: "int \<Rightarrow> int \<Rightarrow> int" where
  "max_clamp val limit = min val limit"

text \<open>
  The part of \<open>attempt_update\<close> between the successful \<open>get_feed\<close> and the call of
  \<open>download_queue\<close>. It either returns a flag (\<open>PReturn\<close>) or has extended the queue
  and goes on to drain it (\<open>PDrain\<close>).
\<close>

datatype plan_result = PReturn bool subscription | PDrain subscription

fun plan_sub :: "plan_result \<Rightarrow> subscription" where
  "plan_sub (PReturn b s) = s"
| "plan_sub (PDrain s) = s"

text \<open>Lines 190-208, with the watermark known to be the int \<open>latest\<close>.\<close>

definition queue_new_entries :: "subscription \<Rightarrow> int \<Rightarrow> plan_result" where
  "queue_new_entries s latest =
     (let fs = feed_state s;
          number_feeds = int (length (entries fs))
      in if latest \<ge> number_feeds then PReturn True s
         else PDrain (s\<lparr>feed_state := fs
                \<lparr>queue := queue fs @ map (\<lambda>i. (i + 1, False)) [latest..number_feeds - 1]\<rparr>\<rparr>))"

definition set_latest :: "subscription \<Rightarrow> int \<Rightarrow> subscription" where
  "set_latest s n = s\<lparr>feed_state := (feed_state s)\<lparr>latest_entry_number := Some n\<rparr>\<rparr>"

definition plan_update :: "subscription \<Rightarrow> plan_result" where
  "plan_update s =
     (let number_feeds = int (length (entries (feed_state s)))
      in case latest_entry_number (feed_state s) of
           Some latest \<Rightarrow> queue_new_entries s latest
         | None \<Rightarrow>
             (if download_backlog s = Some True then
                (case backlog_limit s of
                   None \<Rightarrow> queue_new_entries (set_latest s 0) 0
                 | Some limit \<Rightarrow>
                     if limit = 0 then queue_new_entries (set_latest s 0) 0
                     else if limit < 0 then PReturn False s
                     else
                       (let clamped = max_clamp limit number_feeds;
                            s' = set_latest (s\<lparr>backlog_limit := Some clamped\<rparr>) (number_feeds - clamped)
                        in queue_new_entries s' (number_feeds - clamped)))
              else PReturn True (set_latest s number_feeds)))"

section \<open>\<open>Subscription.get_status\<close> and \<open>Config.list\<close>\<close>

text \<open>\<open>str\<close> of an int, and \<open>str.zfill\<close>.\<close>

definition digit_char :: "nat \<Rightarrow> char" where
  "digit_char d = ''0123456789'' ! d"

function str_nat :: "nat \<Rightarrow> string" where
  "str_nat n = (if n < 10 then [digit_char n] else str_nat (n div 10) @ [digit_char (n mod 10)])"
  by pat_completeness auto
termination
  by (relation "measure id") auto

declare str_nat.simps [simp del]

definition py_str :: "int \<Rightarrow> string" where
  "py_str i = (if i < 0 then CHR ''-'' # str_nat (nat (- i)) else str_nat (nat i))"

definition zfill :: "string \<Rightarrow> nat \<Rightarrow> string" where
  "zfill str width =
     (if width \<le> length str then str
      else case str of
             [] \<Rightarrow> replicate width CHR ''0''
           | c # rest \<Rightarrow>
               if c = CHR ''+'' \<or> c = CHR ''-''
               then c # replicate (width - length str) CHR ''0'' @ rest
               else replicate (width - length str) CHR ''0'' @ str)"

text \<open>
  \<open>get_status\<close> (lines 335-340). The last argument of \<open>format\<close> is
  \<open>self.feed_state.latest_entry_number-1\<close>; \<open>None - 1\<close> raises \<open>TypeError\<close>.
\<close>

definition get_status :: "subscription \<Rightarrow> int \<Rightarrow> int \<Rightarrow> py_error + string" where
  "get_status s index total_subs =
     (let pad_num = length (py_str total_subs);
          padded_cur_num = zfill (py_str (index + 1)) pad_num
      in case latest_entry_number (feed_state s) of
           None \<Rightarrow> Inl TypeError
         | Some latest \<Rightarrow>
             Inr (padded_cur_num @ ''/'' @ py_str total_subs @ '' - '' @ [CHR 0x27] @ name s
                  @ [CHR 0x27] @ '' |'' @ py_str (latest - 1) @ ''|''))"

text \<open>
  \<open>Config.list\<close> (lines 158-161): \<open>get_status\<close> for each subscription in turn; the
  first exception ends the command. The result is the lines logged.
\<close>

fun list_from :: "subscription list \<Rightarrow> int \<Rightarrow> int \<Rightarrow> py_error + string list" where
  "list_from [] i num_subs = Inr []"
| "list_from (sub # subs) i num_subs =
     (case get_status sub i num_subs of
        Inl e \<Rightarrow> Inl e
      | Inr line \<Rightarrow>
          (case list_from subs (i + 1) num_subs of
             Inl e \<Rightarrow> Inl e
           | Inr rest \<Rightarrow> Inr (line # rest)))"

definition config_list :: "subscription list \<Rightarrow> py_error + string list" where
  "config_list subscriptions = list_from subscriptions 0 (int (length subscriptions))"

section \<open>The feed-state invariant\<close>

text \<open>
  The two properties the data model states for a feed state, and a third about the
  queue: every key of \<open>entries_state_dict\<close> is below the number of entries;
  every queued index is at most the number of entries; and the watermark, once set,
  is not lowered from one state to the next.
\<close>

definition keys_ok :: "FeedState \<Rightarrow> bool" where
  "keys_ok fs = (\<forall>k \<in> dom (entries_state_dict fs). k < int (length (entries fs)))"

definition queue_ok :: "FeedState \<Rightarrow> bool" where
  "queue_ok fs = (\<forall>item \<in> set (queue fs). fst item \<le> int (length (entries fs)))"

definition watermark_kept :: "FeedState \<Rightarrow> FeedState \<Rightarrow> bool" where
  "watermark_kept fs fs' =
     (case latest_entry_number fs of
        None \<Rightarrow> True
      | Some l \<Rightarrow> (case latest_entry_number fs' of None \<Rightarrow> False | Some l' \<Rightarrow> l \<le> l'))"

text \<open>The subscription a pass of the drain loop leaves behind, however it ends.\<close>

fun step_sub :: "drain_step \<Rightarrow> subscription" where
  "step_sub (Continue s) = s"
| "step_sub (Stopped s) = s"
| "step_sub (Raised e s) = s"

section \<open>Concrete inputs\<close>

text \<open>
  A subscription like those of \<open>test_subscription.py\<close>: \<open>n\<close> entries with one
  enclosure each, a given watermark and a given queue; a downloader that always
  succeeds and one that is interrupted by the user; a plain file name rule.
\<close>

definition hi_entry :: entry where
  "hi_entry = \<lparr>title = ''hi'', urls = [''hi.txt'']\<rparr>"

definition fixture_sub :: "nat \<Rightarrow> int option \<Rightarrow> (int \<times> bool) list \<Rightarrow> subscription" where
  "fixture_sub n latest q =
     \<lparr> name = ''testfeed'', provided_url = ''valid'', current_url = Some ''valid'',
       temp_url = None, directory = Some ''dir'', download_backlog = Some True,
       backlog_limit = None, use_title_as_filename = Some False,
       feed_state = FeedState_init\<lparr>entries := replicate n hi_entry,
         latest_entry_number := latest, queue := q\<rparr> \<rparr>"

definition dl_ok :: downloader where
  "dl_ok url dest overwrite = Downloaded"

definition dl_interrupt :: downloader where
  "dl_interrupt url dest overwrite = Interrupted"

definition dest_join :: get_dest where
  "dest_join url ttl dir = path_join dir url"

definition marked_sub :: subscription where
  "marked_sub = (fixture_sub 3 (Some 1) [(2, False), (3, False)])
     \<lparr>feed_state := (feed_state (fixture_sub 3 (Some 1) [(2, False), (3, False)]))
        \<lparr>entries_state_dict := [0 \<mapsto> True]\<rparr>\<rparr>"

lemmas fixture_defs = fixture_sub_def hi_entry_def FeedState_init_def dl_ok_def dl_interrupt_def
  dest_join_def

section \<open>Retrieving the feed: \<open>Subscription.get_feed\<close>\<close>

text \<open>
  What \<open>feedparser.parse\<close> returns, as far as the code reads it: the keys
  \<open>status\<close>, \<open>bozo\<close>, \<open>etag\<close> and \<open>modified_parsed\<close> may be absent; \<open>href\<close> is the
  resolved location; each entry is a title with the \<open>href\<close>s of its enclosures.
\<close>

record parsed =
  p_status :: "int option"
  p_bozo :: "int option"
  p_href :: string
  p_etag :: "string option"
  p_modified_parsed :: "nat option"
  p_entries :: "(string \<times> string list) list"

text \<open>
  The network is a parameter: the answer to the \<open>k\<close>-th call of \<open>feedparser.parse\<close>
  for a URL, sent with an optional etag and an optional time stamp. The number of
  calls made so far is carried along with the subscription.
\<close>

type_synonym feedparser = "nat \<Rightarrow> string \<Rightarrow> string option \<Rightarrow> nat option \<Rightarrow> parsed"

definition MAX_RECURSIVE_ATTEMPTS :: int where
  "MAX_RECURSIVE_ATTEMPTS = 10"

text \<open>\<open>_FeedState.load_rss_info\<close> (lines 617-628): the entries are replaced wholesale.\<close>

definition load_rss_info :: "FeedState \<Rightarrow> parsed \<Rightarrow> FeedState" where
  "load_rss_info fs p = fs\<lparr>entries := map (\<lambda>(t, hrefs). \<lparr>title = t, urls = hrefs\<rparr>) (p_entries p)\<rparr>"

text \<open>
  \<open>_feedparser_parse_with_options\<close> (lines 430-475) for the URL in \<open>_current_url\<close>.
  On \<open>FAILURE\<close> and \<open>UNNEEDED\<close> the source returns \<open>None\<close> in place of the parse
  result; the caller does not read it then, and the model hands the result back in
  all three cases.
\<close>

definition feedparser_parse_with_options ::
    "feedparser \<Rightarrow> nat \<Rightarrow> string \<Rightarrow> subscription \<Rightarrow> (parsed \<times> UpdateResult) \<times> subscription" where
  "feedparser_parse_with_options net k url s =
     (let fs = feed_state s;
          p = (if \<not> has_state fs \<or> (last_modified fs = None \<and> etag fs = None)
                 then net k url None None
               else if last_modified fs \<noteq> None \<and> etag fs \<noteq> None
                 then net k url (etag fs) (last_modified fs)
               else if last_modified fs \<noteq> None
                 then net k url None (last_modified fs)
               else net k url (etag fs) None);
          fs' = fs\<lparr>etag := (case p_etag p of None \<Rightarrow> etag fs | Some e \<Rightarrow> Some e),
                   last_modified := (case p_modified_parsed p of
                                       None \<Rightarrow> last_modified fs
                                     | Some m \<Rightarrow> Some m)\<rparr>;
          s' = s\<lparr>feed_state := fs'\<rparr>
      in if p_status p = None \<and> p_bozo p = Some 1 then ((p, FAILURE), s')
         else if p_status p = Some 304 then ((p, UNNEEDED), s')
         else ((p, SUCCESS), s'))"

text \<open>\<open>_handle_http_codes\<close> (lines 477-539).\<close>

definition handle_http_codes :: "subscription \<Rightarrow> parsed \<Rightarrow> UpdateResult \<times> subscription" where
  "handle_http_codes s p =
     (case p_status p of
        None \<Rightarrow> (SUCCESS, s)
      | Some status \<Rightarrow>
          if status = 404 then (FAILURE, s)
          else if status \<in> {401, 410} then (FAILURE, s\<lparr>current_url := None\<rparr>)
          else if status \<in> {301, 308} then (ATTEMPT_AGAIN, s\<lparr>current_url := Some (p_href p)\<rparr>)
          else if status \<in> {302, 303, 307}
            then (ATTEMPT_AGAIN, s\<lparr>temp_url := current_url s, current_url := Some (p_href p)\<rparr>)
          else if status \<noteq> 200 then (ATTEMPT_AGAIN, s)
          else (SUCCESS, s))"

text \<open>
  \<open>get_feed\<close> (lines 382-428). The decorator \<open>Util.rate_limited\<close> (module
  \<open>puckfetcher.util\<close>, not available) waits until the interval has passed and then
  makes the call, as \<open>test_rate_limiting\<close> shows; it is left out. The state is the
  subscription and the number of network calls made.
\<close>

function get_feed :: "feedparser \<Rightarrow> subscription \<times> nat \<Rightarrow> int \<Rightarrow> UpdateResult \<times> subscription \<times> nat" where
  "get_feed net (s, k) attempt_count =
     (if attempt_count > MAX_RECURSIVE_ATTEMPTS then (FAILURE, s, k)
      else case current_url s of
             None \<Rightarrow> (FAILURE, s, k)
           | Some url \<Rightarrow>
               if url = [] then (FAILURE, s, k)
               else
                 (case feedparser_parse_with_options net k url s of
                    ((p, code), s1) \<Rightarrow>
                      if code = UNNEEDED then (code, s1, Suc k)
                      else if code \<noteq> SUCCESS then (code, s1, Suc k)
                      else
                        (case handle_http_codes s1 p of
                           (code', s2) \<Rightarrow>
                             if code' = ATTEMPT_AGAIN then
                               (let temp = temp_url s2
                                in case get_feed net (s2, Suc k) (attempt_count + 1) of
                                     (new_result, s3, k3) \<Rightarrow>
                                       (new_result,
                                        (case temp of
                                           None \<Rightarrow> s3
                                         | Some t \<Rightarrow> s3\<lparr>current_url := Some t\<rparr>),
                                        k3))
                             else if code' \<noteq> SUCCESS then (code', s2, Suc k)
                             else (SUCCESS,
                                   s2\<lparr>feed_state := load_rss_info (feed_state s2) p\<rparr>,
                                   Suc k))))"
  by pat_completeness auto
termination
  by (relation "measure (\<lambda>(net, st, attempt_count). nat (MAX_RECURSIVE_ATTEMPTS + 1 - attempt_count))")
    auto

declare get_feed.simps [simp del]

text \<open>
  \<open>attempt_update\<close> (lines 149-211): \<open>get_feed\<close>, then the planning above, then
  \<open>download_queue\<close>. The method returns an \<open>UpdateResult\<close> or a flag; an exception
  that leaves \<open>download_queue\<close> leaves \<open>attempt_update\<close> too.
\<close>

datatype update_return = Result UpdateResult | Flag bool | Exception py_error

definition attempt_update ::
    "feedparser \<Rightarrow> downloader \<Rightarrow> get_dest \<Rightarrow> subscription \<times> nat \<Rightarrow> update_return \<times> subscription \<times> nat" where
  "attempt_update net dl gd st =
     (case get_feed net st 0 of
        (feed_get_result, s1, k1) \<Rightarrow>
          if feed_get_result \<noteq> SUCCESS then (Result feed_get_result, s1, k1)
          else
            (case plan_update s1 of
               PReturn b s2 \<Rightarrow> (Flag b, s2, k1)
             | PDrain s2 \<Rightarrow>
                 (case download_queue dl gd s2 of
                    (None, s3) \<Rightarrow> (Flag True, s3, k1)
                  | (Some e, s3) \<Rightarrow> (Exception e, s3, k1))))"

text \<open>
  A server for two update cycles: the first request for \<open>u0\<close> is answered with a
  temporary redirect to \<open>u1\<close>, every later request for \<open>u0\<close> with a permanent
  redirect to \<open>u2\<close>, and every other URL serves a feed of one entry. A second
  server redirects every URL permanently to itself.
\<close>

definition ok_response :: parsed where
  "ok_response =
     \<lparr> p_status = Some 200, p_bozo = None, p_href = [], p_etag = None,
       p_modified_parsed = None, p_entries = [(''hi'', [''hi.txt''])] \<rparr>"

definition redirect :: "int \<Rightarrow> string \<Rightarrow> parsed" where
  "redirect code target = ok_response\<lparr>p_status := Some code, p_href := target\<rparr>"

definition moving_server :: feedparser where
  "moving_server k url e m =
     (if url = ''u0'' then (if k = 0 then redirect 302 ''u1'' else redirect 301 ''u2'')
      else ok_response)"

definition looping_server :: feedparser where
  "looping_server k url e m = redirect 301 url"

definition origin_sub :: subscription where
  "origin_sub = (fixture_sub 0 None [])\<lparr>provided_url := ''u0'', current_url := Some ''u0''\<rparr>"

text \<open>The feed of \<open>test_subscription.py\<close>: ten entries, whatever is asked.\<close>

definition test_feed :: feedparser where
  "test_feed k url e m = ok_response\<lparr>p_entries := replicate 10 (''hi'', [''hi.txt''])\<rparr>"

text \<open>
  The server of \<open>_test_url_helper\<close> in \<open>test_subscription.py\<close>: a URL named after
  a status code is answered with that code, redirects lead to \<open>valid\<close>.
\<close>

definition url_test_server :: feedparser where
  "url_test_server k url e m =
     (if url = ''301'' then redirect 301 ''valid''
      else if url = ''302'' then redirect 302 ''valid''
      else if url = ''404'' then redirect 404 []
      else if url = ''410'' then redirect 410 []
      else ok_response)"

definition url_test_sub :: "string \<Rightarrow> subscription" where
  "url_test_sub given = (fixture_sub 0 None [])\<lparr>provided_url := given, current_url := Some given\<rparr>"

lemmas server_defs = ok_response_def redirect_def moving_server_def looping_server_def
  origin_sub_def test_feed_def url_test_server_def url_test_sub_def

section \<open>The cache: \<open>Subscription.decode_subscription\<close> and \<open>Config._load_cache_settings\<close>\<close>

text \<open>
  A cache record is a dict; an absent key is \<open>None\<close> here. The key
  \<open>_current_url\<close> can be present with the value \<open>None\<close> (a subscription whose URL
  was cleared), hence the double option. The record of the feed state carries the
  keys \<open>_FeedState.__init__\<close> reads, except \<open>last_modified\<close>, which \<open>as_dict\<close>
  always writes as \<open>None\<close> and which is loaded as \<open>None\<close>.
\<close>

record feed_state_dict =
  d_entries :: "entry list option"
  d_entries_state_dict :: "(int \<rightharpoonup> bool) option"
  d_queue :: "(int \<times> bool) list option"
  d_etag :: "string option"
  d_latest_entry_number :: "int option"

record sub_dictionary =
  k_name :: "string option"
  k_current_url :: "string option option"
  k_provided_url :: "string option"
  k_directory :: "string option"
  k_download_backlog :: "bool option"
  k_backlog_limit :: "int option"
  k_use_title_as_filename :: "bool option"
  k_feed_state :: "feed_state_dict option"

text \<open>\<open>_FeedState.__init__\<close> (lines 578-615).\<close>

definition FeedState_of :: "feed_state_dict option \<Rightarrow> FeedState" where
  "FeedState_of dict =
     (case dict of
        None \<Rightarrow> FeedState_init
      | Some d \<Rightarrow>
          \<lparr> entries = (case d_entries d of None \<Rightarrow> [] | Some es \<Rightarrow> es),
            entries_state_dict = (case d_entries_state_dict d of None \<Rightarrow> Map.empty | Some m \<Rightarrow> m),
            queue = (case d_queue d of None \<Rightarrow> [] | Some q \<Rightarrow> q),
            last_modified = None,
            etag = d_etag d,
            latest_entry_number = d_latest_entry_number d,
            has_state = True \<rparr>)"

text \<open>
  The object \<open>decode_subscription\<close> builds. It is made by \<open>Subscription.__new__\<close>,
  without \<open>__init__\<close>, and gets exactly the attributes that lines 84-100 set: there
  is no \<open>_temp_url\<close> among them. It is therefore a record of its own, and the
  methods above, which are modelled for objects built by \<open>__init__\<close>, are not applied
  to it.
\<close>

record decoded_subscription =
  dc_name :: string
  dc_current_url :: "string option"
  dc_provided_url :: string
  dc_directory :: "string option"
  dc_download_backlog :: "bool option"
  dc_backlog_limit :: "int option"
  dc_use_title_as_filename :: "bool option"
  dc_feed_state :: FeedState

text \<open>
  \<open>decode_subscription\<close> (lines 80-102). When one of the three mandatory keys is
  missing, the method logs an error and returns \<open>None\<close>; it raises nothing.
\<close>

definition decode_subscription :: "sub_dictionary \<Rightarrow> decoded_subscription option" where
  "decode_subscription sub_dictionary =
     (case k_name sub_dictionary of
        None \<Rightarrow> None
      | Some n \<Rightarrow>
          (case k_current_url sub_dictionary of
             None \<Rightarrow> None
           | Some cur \<Rightarrow>
               (case k_provided_url sub_dictionary of
                  None \<Rightarrow> None
                | Some prov \<Rightarrow>
                    Some \<lparr> dc_name = n, dc_current_url = cur, dc_provided_url = prov,
                           dc_directory = k_directory sub_dictionary,
                           dc_download_backlog = k_download_backlog sub_dictionary,
                           dc_backlog_limit = k_backlog_limit sub_dictionary,
                           dc_use_title_as_filename = k_use_title_as_filename sub_dictionary,
                           dc_feed_state = FeedState_of (k_feed_state sub_dictionary) \<rparr>)))"

text \<open>
  \<open>Config.cache_map\<close>. The decoded subscriptions are objects that the lookup
  tables refer to; they live in a heap of objects, and the tables map a name or a
  URL to an address.
\<close>

record cache_map =
  heap :: "nat \<Rightarrow> decoded_subscription"
  next_addr :: nat
  by_name :: "string \<rightharpoonup> nat"
  by_url :: "string \<rightharpoonup> nat"

text \<open>
  The loop of \<open>_load_cache_settings\<close> (lines 300-311). Each pass through the body
  ends in an exception:
  \<^item> \<open>decode_subscription\<close> never raises \<open>MalformedSubscriptionError\<close>, so the
    \<open>except\<close> clause is never entered; for a record that decodes to \<open>None\<close>, line 310
    reads \<open>None.name\<close> and raises \<open>AttributeError\<close>;
  \<^item> for a record that decodes, line 310 enters the object into the by-name table,
    and line 311 reads its attribute \<open>original_url\<close>, which the class
    \<open>Subscription\<close> of \<open>subscription.py\<close> does not define: \<open>AttributeError\<close> again,
    before anything is stored in the by-URL table.

  Nothing catches either. So the records after the first are never reached. The
  result is the exception, if any, and the tables as they are when the method is
  left.
\<close>

fun load_cache_settings :: "cache_map \<Rightarrow> sub_dictionary list \<Rightarrow> py_error option \<times> cache_map" where
  "load_cache_settings c [] = (None, c)"
| "load_cache_settings c (encoded_sub # rest) =
     (case decode_subscription encoded_sub of
        None \<Rightarrow> (Some AttributeError, c)
      | Some decoded_sub \<Rightarrow>
          (Some AttributeError,
           c\<lparr>heap := (heap c)(next_addr c := decoded_sub),
             next_addr := Suc (next_addr c),
             by_name := (by_name c)(dc_name decoded_sub \<mapsto> next_addr c)\<rparr>))"

section \<open>The user's file: \<open>Subscription.parse_from_user_yaml\<close> and \<open>Config._load_user_settings\<close>\<close>

text \<open>
  \<open>Config.settings\<close>. \<open>Config.__init__\<close> (lines 35-39) creates the dict with the keys
  \<open>directory\<close>, \<open>backlog_limit\<close> and \<open>use_title_as_filename\<close>. The key
  \<open>download_backlog\<close> is an option: \<open>None\<close> says the dict does not have it, and
  reading a key a dict does not have raises \<open>KeyError\<close>.
\<close>

record settings =
  st_directory :: string
  st_backlog_limit :: "int option"
  st_use_title_as_filename :: bool
  st_download_backlog :: "bool option"

definition Config_settings :: "string \<Rightarrow> settings" where
  "Config_settings data_dir =
     \<lparr> st_directory = data_dir, st_backlog_limit = Some 1, st_use_title_as_filename = False,
       st_download_backlog = None \<rparr>"

text \<open>
  One entry of the user's list \<open>subscriptions\<close>, and the user's file as a whole. An
  absent key is \<open>None\<close>; \<open>backlog_limit\<close> may be present with the value null.
\<close>

record sub_yaml =
  y_name :: "string option"
  y_url :: "string option"
  y_directory :: "string option"
  y_download_backlog :: "bool option"
  y_backlog_limit :: "int option option"
  y_use_title_as_filename :: "bool option"

record config_yaml =
  c_directory :: "string option"
  c_backlog_limit :: "int option option"
  c_use_title_as_filename :: "bool option"
  c_download_backlog :: "bool option"
  c_subscriptions :: "sub_yaml list"

text \<open>
  The object \<open>parse_from_user_yaml\<close> builds: name, URL, directory and the policy
  fields, and no feed state.
\<close>

record user_sub =
  u_name :: string
  u_url :: string
  u_directory :: string
  u_download_backlog :: bool
  u_backlog_limit :: "int option"
  u_use_title_as_filename :: bool

text \<open>
  \<open>parse_from_user_yaml\<close> (lines 121-146). An entry without name or URL gives
  \<open>None\<close>. For the others, the second argument of each \<open>sub_yaml.get(key, default)\<close>
  is evaluated before the call, whether the entry has the key or not; on line 141
  it is \<open>defaults["download_backlog"]\<close>.
\<close>

definition parse_from_user_yaml :: "sub_yaml \<Rightarrow> settings \<Rightarrow> py_error + user_sub option" where
  "parse_from_user_yaml y defaults =
     (case y_name y of
        None \<Rightarrow> Inr None
      | Some nm \<Rightarrow>
          (case y_url y of
             None \<Rightarrow> Inr None
           | Some url \<Rightarrow>
               (case st_download_backlog defaults of
                  None \<Rightarrow> Inl KeyError
                | Some default_backlog \<Rightarrow>
                    Inr (Some
                      \<lparr> u_name = nm, u_url = url,
                        u_directory = (case y_directory y of
                                         None \<Rightarrow> path_join (st_directory defaults) nm
                                       | Some d \<Rightarrow> d),
                        u_download_backlog = (case y_download_backlog y of
                                                None \<Rightarrow> default_backlog
                                              | Some b \<Rightarrow> b),
                        u_backlog_limit = (case y_backlog_limit y of
                                             None \<Rightarrow> st_backlog_limit defaults
                                           | Some l \<Rightarrow> l),
                        u_use_title_as_filename = (case y_use_title_as_filename y of
                                                     None \<Rightarrow> st_use_title_as_filename defaults
                                                   | Some b \<Rightarrow> b) \<rparr>))))"

text \<open>
  The first loop of \<open>_load_user_settings\<close> (lines 328-334): a key of the file is
  stored only when the settings already have that key.
\<close>

definition store_settings :: "settings \<Rightarrow> config_yaml \<Rightarrow> settings" where
  "store_settings st y =
     \<lparr> st_directory = (case c_directory y of None \<Rightarrow> st_directory st | Some d \<Rightarrow> d),
       st_backlog_limit = (case c_backlog_limit y of None \<Rightarrow> st_backlog_limit st | Some l \<Rightarrow> l),
       st_use_title_as_filename =
         (case c_use_title_as_filename y of None \<Rightarrow> st_use_title_as_filename st | Some b \<Rightarrow> b),
       st_download_backlog =
         (case st_download_backlog st of
            None \<Rightarrow> None
          | Some old \<Rightarrow> (case c_download_backlog y of None \<Rightarrow> Some old | Some b \<Rightarrow> Some b)) \<rparr>"

text \<open>
  The second loop (lines 336-346): an entry that parses to \<open>None\<close> is counted and
  skipped, the others are appended; an exception from the parser leaves the method.
\<close>

fun parse_subscriptions :: "settings \<Rightarrow> sub_yaml list \<Rightarrow> py_error + user_sub list" where
  "parse_subscriptions st [] = Inr []"
| "parse_subscriptions st (yaml_sub # rest) =
     (case parse_from_user_yaml yaml_sub st of
        Inl e \<Rightarrow> Inl e
      | Inr None \<Rightarrow> parse_subscriptions st rest
      | Inr (Some sub) \<Rightarrow>
          (case parse_subscriptions st rest of
             Inl e \<Rightarrow> Inl e
           | Inr subs \<Rightarrow> Inr (sub # subs)))"

text \<open>
  \<open>_load_user_settings\<close> (lines 313-349): the settings and the list of parsed
  subscriptions, or the exception. An empty file is \<open>None\<close>.
\<close>

definition load_user_settings :: "settings \<Rightarrow> config_yaml option \<Rightarrow> py_error + settings \<times> user_sub list" where
  "load_user_settings st yaml_settings =
     (case yaml_settings of
        None \<Rightarrow> Inr (st, [])
      | Some y \<Rightarrow>
          (case parse_subscriptions (store_settings st y) (c_subscriptions y) of
             Inl e \<Rightarrow> Inl e
           | Inr subs \<Rightarrow> Inr (store_settings st y, subs)))"

section \<open>Reconciliation: \<open>Config.load_state\<close>\<close>

text \<open>
  \<open>load_state\<close> (lines 79-126): \<open>_load_user_settings\<close>, then
  \<open>_load_cache_settings\<close>, then the merge loop over the parsed subscriptions. The
  two \<open>except\<close> clauses catch \<open>MalformedConfigError\<close> only, and raise it again.

  The merge loop (lines 96-121) looks the subscription up by name and then by URL
  and calls \<open>sub.update(...)\<close> on the object it holds (line 115). The class
  \<open>Subscription\<close> of \<open>subscription.py\<close> defines \<open>update_directory\<close> and \<open>update_url\<close>
  but no \<open>update\<close>, so the first pass through the loop raises \<open>AttributeError\<close>,
  whichever object the lookup gave.

  The result is the settings, the cache tables and the list of subscriptions, or
  the exception that left the method.
\<close>

definition load_state ::
    "settings \<Rightarrow> cache_map \<Rightarrow> config_yaml option \<Rightarrow> sub_dictionary list
     \<Rightarrow> py_error + settings \<times> cache_map \<times> user_sub list" where
  "load_state st c yaml_settings cache_records =
     (case load_user_settings st yaml_settings of
        Inl e \<Rightarrow> Inl e
      | Inr (st', subscriptions) \<Rightarrow>
          (case load_cache_settings c cache_records of
             (Some e, c') \<Rightarrow> Inl e
           | (None, c') \<Rightarrow>
               if subscriptions \<noteq> [] then Inl AttributeError
               else Inr (st', c', subscriptions)))"

text \<open>
  A cache file and a user's file. The cache records \<open>a\<close> (URL \<open>u1\<close>) and \<open>b\<close>
  (URL \<open>u3\<close>) carry feed history; \<open>nameless_record\<close> lacks its name. The user's
  file lists the one subscription \<open>a\<close>, with its URL changed to \<open>u2\<close>.
\<close>

definition blank_decoded :: decoded_subscription where
  "blank_decoded =
     \<lparr> dc_name = [], dc_current_url = None, dc_provided_url = [], dc_directory = None,
       dc_download_backlog = None, dc_backlog_limit = None, dc_use_title_as_filename = None,
       dc_feed_state = FeedState_init \<rparr>"

definition blank_heap :: "nat \<Rightarrow> decoded_subscription" where
  "blank_heap a = blank_decoded"

definition cache_map_init :: cache_map where
  "cache_map_init = \<lparr> heap = blank_heap, next_addr = 0, by_name = Map.empty, by_url = Map.empty \<rparr>"

definition history :: feed_state_dict where
  "history =
     \<lparr> d_entries = Some [hi_entry, hi_entry], d_entries_state_dict = Some [0 \<mapsto> True, 1 \<mapsto> True],
       d_queue = Some [], d_etag = Some ''tag'', d_latest_entry_number = Some 2 \<rparr>"

definition good_record :: "string \<Rightarrow> string \<Rightarrow> sub_dictionary" where
  "good_record nm url =
     \<lparr> k_name = Some nm, k_current_url = Some (Some url), k_provided_url = Some url,
       k_directory = Some ''old'', k_download_backlog = Some True, k_backlog_limit = Some 1,
       k_use_title_as_filename = Some False, k_feed_state = Some history \<rparr>"

definition nameless_record :: sub_dictionary where
  "nameless_record = (good_record ''x'' ''u2'')\<lparr>k_name := None\<rparr>"

definition user_entry :: "string \<Rightarrow> string \<Rightarrow> sub_yaml" where
  "user_entry nm url =
     \<lparr> y_name = Some nm, y_url = Some url, y_directory = None, y_download_backlog = None,
       y_backlog_limit = None, y_use_title_as_filename = None \<rparr>"

definition user_file :: "sub_yaml list \<Rightarrow> config_yaml" where
  "user_file subs =
     \<lparr> c_directory = None, c_backlog_limit = None, c_use_title_as_filename = None,
       c_download_backlog = None, c_subscriptions = subs \<rparr>"

lemmas cache_defs = blank_decoded_def blank_heap_def cache_map_init_def history_def
  good_record_def nameless_record_def decode_subscription_def FeedState_of_def

lemmas user_defs = Config_settings_def user_entry_def user_file_def store_settings_def
  load_user_settings_def parse_from_user_yaml_def

section \<open>The drain step and the watermark\<close>

text \<open>
  What one successful pass of the loop does, in general: for the queue item with
  one-based index \<open>i\<close> the code works with \<open>entry_num = i - 1\<close> from line 226 on,
  so the watermark becomes the maximum of its old value and \<open>i - 1\<close>, and the flag
  of \<open>i - 1\<close> is set.
\<close>

lemma drain_item_downloaded:
  assumes "py_index (entries (feed_state s)) (int (length (entries (feed_state s))) - i) = Some e"
    and "directory s = Some d"
    and "download_urls dl gd (title e)
           (if length (urls e) > 1 then path_join d (title e) else d) ow (urls e) = Downloaded"
    and "latest_entry_number (feed_state s) = Some latest"
  shows "drain_item dl gd s (i, ow) =
           Continue (s\<lparr>feed_state := (feed_state s)
             \<lparr>latest_entry_number := Some (max latest (i - 1)),
              entries_state_dict := (entries_state_dict (feed_state s))(i - 1 \<mapsto> True)\<rparr>\<rparr>)"
  using assms by (simp add: drain_item_def record_download_def Let_def max_def)

text \<open>
  A pass that is interrupted inside the downloader: the handler pushes
  \<open>(entry_num, True)\<close>, with the decremented \<open>entry_num = i - 1\<close>.
\<close>

lemma drain_item_interrupted:
  assumes "py_index (entries (feed_state s)) (int (length (entries (feed_state s))) - i) = Some e"
    and "directory s = Some d"
    and "download_urls dl gd (title e)
           (if length (urls e) > 1 then path_join d (title e) else d) ow (urls e) = Interrupted"
  shows "drain_item dl gd s (i, ow) =
           Stopped (s\<lparr>feed_state := (feed_state s)\<lparr>queue := (i - 1, True) # queue (feed_state s)\<rparr>\<rparr>)"
  using assms by (simp add: drain_item_def Let_def)

text \<open>
  C1. The claim: when all enclosures of the queue item with one-based index \<open>i\<close>
  download, the drain step sets \<open>latest_entry_number\<close> to the maximum of its old
  value and \<open>i\<close>, and sets the flag of \<open>i - 1\<close>. The code compares and stores
  \<open>entry_num = i - 1\<close> instead. On the input of \<open>test_attempt_update_new_entry\<close>
  (ten entries, watermark 9, item 10 queued, every download succeeding) the
  watermark stays 9, where the claim and the test's assertion say 10; the flag of
  \<open>9\<close> is set as claimed.
\<close>

theorem drain_watermark_stays_below_index:
  "fst (download_queue dl_ok dest_join (fixture_sub 10 (Some 9) [(10, False)])) = None
   \<and> latest_entry_number (feed_state (snd
        (download_queue dl_ok dest_join (fixture_sub 10 (Some 9) [(10, False)])))) = Some 9
   \<and> entries_state_dict (feed_state (snd
        (download_queue dl_ok dest_join (fixture_sub 10 (Some 9) [(10, False)])))) 9 = Some True
   \<and> queue (feed_state (snd
        (download_queue dl_ok dest_join (fixture_sub 10 (Some 9) [(10, False)])))) = []"
  by (simp add: fixture_defs download_queue.simps drain_item_def record_download_def
      py_index_def Let_def)

text \<open>
  The same through \<open>attempt_update\<close>, as the test runs it: the feed has ten
  entries, the watermark is 9, one entry is fetched, and the watermark is still 9.
\<close>

lemma new_entry_update_leaves_watermark:
  "attempt_update test_feed dl_ok dest_join (fixture_sub 0 (Some 9) [], 0) =
     (Flag True,
      fixture_sub 10 (Some 9) []
        \<lparr>feed_state := (feed_state (fixture_sub 10 (Some 9) []))
           \<lparr>entries_state_dict := [9 \<mapsto> True]\<rparr>\<rparr>,
      1)"
  by (simp add: attempt_update_def get_feed.simps server_defs fixture_defs
      feedparser_parse_with_options_def handle_http_codes_def load_rss_info_def
      MAX_RECURSIVE_ATTEMPTS_def plan_update_def queue_new_entries_def
      download_queue.simps drain_item_def record_download_def py_index_def Let_def)

text \<open>
  C2. The claim: a drain interrupted while it processes the item with one-based
  index \<open>i\<close> pushes exactly \<open>(i, True)\<close> onto the front of the queue. The handler
  pushes \<open>(entry_num, True)\<close> after \<open>entry_num\<close> has been decremented, that is
  \<open>(i - 1, True)\<close>. With five entries and the queue \<open>[(3, False), (4, False)]\<close>, an
  interrupt during the download of item 3 leaves \<open>[(2, True), (4, False)]\<close>:
  item 3 is lost and item 2 is fetched on resumption.
\<close>

theorem interrupt_requeues_previous_index:
  "download_queue dl_interrupt dest_join (fixture_sub 5 (Some 2) [(3, False), (4, False)]) =
     (None, fixture_sub 5 (Some 2) [(2, True), (4, False)])"
  by (simp add: fixture_defs download_queue.simps drain_item_def record_download_def
      py_index_def Let_def)

text \<open>
  When the interrupted item is the first one, the pair pushed back is \<open>(0, True)\<close>,
  and the resumed drain fails on it with \<open>IndexError\<close>.
\<close>

lemma resumed_first_item_raises:
  "download_queue dl_interrupt dest_join (fixture_sub 5 (Some 0) [(1, False)]) =
     (None, fixture_sub 5 (Some 0) [(0, True)])
   \<and> download_queue dl_ok dest_join (fixture_sub 5 (Some 0) [(0, True)]) =
     (Some IndexError, fixture_sub 5 (Some 0) [])"
  by (simp add: fixture_defs download_queue.simps drain_item_def record_download_def
      py_index_def Let_def)

section \<open>Enqueueing by hand\<close>

text \<open>
  An int is never equal to a queued pair, so the membership test of \<open>enqueue\<close>
  never excludes anything: every index of \<open>nums\<close> within \<open>[1, N]\<close> is accepted, in
  input order, returned, and appended to the queue.
\<close>

lemma int_never_in_queue: "\<not> py_in (PyInt num) (queue_values fs)"
  by (induction "queue fs" arbitrary: fs)
    (auto simp: py_in_def queue_values_def list_ex_iff)

lemma enqueue_accepts_all_in_range:
  "fst (enqueue s nums) =
     map (\<lambda>num. (num, True))
       (filter (\<lambda>num. 0 < num \<and> num \<le> int (length (entries (feed_state s)))) nums)
   \<and> queue (feed_state (snd (enqueue s nums))) = queue (feed_state s) @ fst (enqueue s nums)"
  by (simp add: enqueue_def Let_def int_never_in_queue)

text \<open>
  C6. The claim: \<open>enqueue\<close> appends exactly the indices of \<open>nums\<close> that lie in
  \<open>[1, N]\<close> and are not yet in the queue. The range test is as claimed, but the
  membership test compares an int with the queued pairs and never finds it. With
  five entries and item 2 already queued, \<open>enqueue([2])\<close> appends \<open>(2, True)\<close>
  again and returns it.
\<close>

theorem enqueue_requeues_queued_index:
  "enqueue (fixture_sub 5 (Some 5) [(2, False)]) [2] =
     ([(2, True)], fixture_sub 5 (Some 5) [(2, False), (2, True)])"
  by (simp add: fixture_defs enqueue_def queue_values_def py_in_def Let_def)

section \<open>Backlog planning on first contact\<close>

lemma map_succ_upto: "map (\<lambda>i. f (i + 1)) [a..b - 1] = map f [a + 1..b]"
proof (induction a b rule: upto.induct)
  case (1 i j)
  show ?case
  proof (cases "i + 1 \<le> j")
    case True
    then have "[i..j - 1] = i # [i + 1..j - 1]" and "[i + 1..j] = (i + 1) # [i + 1 + 1..j]"
      by (simp_all add: upto_rec1)
    with 1 True show ?thesis by simp
  next
    case False
    then show ?thesis by simp
  qed
qed

lemma map_succ_upto_pair:
  "map (\<lambda>i. (i + 1, flag)) [a..b - 1] = map (\<lambda>i. (i, flag)) [a + 1..b]"
  using map_succ_upto [of "\<lambda>i. (i, flag)" a b] by simp

text \<open>
  C7. On first contact (watermark unset) with \<open>N\<close> entries, \<open>download_backlog\<close>
  true and a backlog limit \<open>k > 0\<close>: the limit is clamped to \<open>min k N\<close>, the
  watermark becomes \<open>N - min k N\<close>, and the one-based indices
  \<open>N - min k N + 1, ..., N\<close> (the \<open>min k N\<close> newest entries, oldest first) are
  appended to the queue, each with \<open>overwrite = False\<close>. This is the state in
  which \<open>attempt_update\<close> calls \<open>download_queue\<close> (or returns, when the feed is
  empty and there is nothing to append).
\<close>

theorem first_contact_backlog:
  assumes "latest_entry_number (feed_state s) = None"
    and "download_backlog s = Some True"
    and "backlog_limit s = Some k"
    and "0 < k"
  shows "let N = int (length (entries (feed_state s)));
             clamped = min k N;
             s' = s\<lparr>backlog_limit := Some clamped,
                    feed_state := (feed_state s)
                      \<lparr>latest_entry_number := Some (N - clamped),
                       queue := queue (feed_state s) @ map (\<lambda>i. (i, False)) [N - clamped + 1..N]\<rparr>\<rparr>
         in plan_update s = (if N = 0 then PReturn True s' else PDrain s')
            \<and> int (length [N - clamped + 1..N]) = clamped"
  using assms
  by (auto simp: plan_update_def queue_new_entries_def set_latest_def max_clamp_def Let_def
      map_succ_upto_pair min_def)

theorem first_contact_backlog_witness:
  "latest_entry_number (feed_state (fixture_sub 10 None [] \<lparr>backlog_limit := Some 4\<rparr>)) = None
   \<and> download_backlog (fixture_sub 10 None [] \<lparr>backlog_limit := Some 4\<rparr>) = Some True
   \<and> (0::int) < 4
   \<and> plan_update (fixture_sub 10 None [] \<lparr>backlog_limit := Some 4\<rparr>) =
       PDrain (fixture_sub 10 (Some 6) [(7, False), (8, False), (9, False), (10, False)]
                 \<lparr>backlog_limit := Some 4\<rparr>)"
  using first_contact_backlog [of "fixture_sub 10 None [] \<lparr>backlog_limit := Some 4\<rparr>" 4]
  by (simp add: fixture_defs Let_def)

text \<open>
  How \<open>attempt_update\<close> goes on from there: when the feed is not empty, the
  queue of that state is drained at once.
\<close>

lemma attempt_update_first_contact:
  assumes "get_feed net st 0 = (SUCCESS, s1, k1)"
    and "latest_entry_number (feed_state s1) = None"
    and "download_backlog s1 = Some True"
    and "backlog_limit s1 = Some k"
    and "0 < k"
    and "entries (feed_state s1) \<noteq> []"
  shows "attempt_update net dl gd st =
     (let N = int (length (entries (feed_state s1)));
          s2 = s1\<lparr>backlog_limit := Some (min k N),
                  feed_state := (feed_state s1)
                    \<lparr>latest_entry_number := Some (N - min k N),
                     queue := queue (feed_state s1) @ map (\<lambda>i. (i, False)) [N - min k N + 1..N]\<rparr>\<rparr>
      in case download_queue dl gd s2 of
           (None, s3) \<Rightarrow> (Flag True, s3, k1)
         | (Some e, s3) \<Rightarrow> (Exception e, s3, k1))"
  using assms
  by (auto simp: attempt_update_def plan_update_def queue_new_entries_def set_latest_def
      max_clamp_def Let_def map_succ_upto_pair min_def)

section \<open>Preservation of the feed-state invariant\<close>

lemma watermark_kept_refl: "watermark_kept fs fs"
  by (simp add: watermark_kept_def split: option.splits)

lemma watermark_kept_trans:
  "watermark_kept a b \<Longrightarrow> watermark_kept b c \<Longrightarrow> watermark_kept a c"
  by (auto simp: watermark_kept_def split: option.splits)

lemma drain_item_entries:
  "entries (feed_state (step_sub (drain_item dl gd s item))) = entries (feed_state s)"
  by (auto simp: drain_item_def record_download_def Let_def
      split: option.splits dl_outcome.splits)

lemma drain_item_watermark:
  "watermark_kept (feed_state s) (feed_state (step_sub (drain_item dl gd s item)))"
  by (auto simp: drain_item_def record_download_def Let_def watermark_kept_def
      split: option.splits dl_outcome.splits)

lemma drain_item_queue_ok:
  "queue_ok (feed_state s) \<Longrightarrow> fst item \<le> int (length (entries (feed_state s)))
     \<Longrightarrow> queue_ok (feed_state (step_sub (drain_item dl gd s item)))"
  by (auto simp: drain_item_def record_download_def Let_def queue_ok_def
      split: option.splits dl_outcome.splits)

lemma drain_item_keys_ok:
  "keys_ok (feed_state s) \<Longrightarrow> fst item \<le> int (length (entries (feed_state s)))
     \<Longrightarrow> keys_ok (feed_state (step_sub (drain_item dl gd s item)))"
  by (auto simp: drain_item_def record_download_def Let_def keys_ok_def
      split: option.splits dl_outcome.splits if_splits)

lemma download_queue_watermark:
  "watermark_kept (feed_state s) (feed_state (snd (download_queue dl gd s)))"
proof (induction dl gd s rule: download_queue.induct)
  case (1 dl gd s)
  show ?case
  proof (cases "queue (feed_state s)")
    case Nil
    then show ?thesis by (simp add: download_queue.simps watermark_kept_refl)
  next
    case (Cons item rest)
    let ?p = "s\<lparr>feed_state := (feed_state s)\<lparr>queue := rest\<rparr>\<rparr>"
    have w: "watermark_kept (feed_state s) (feed_state (step_sub (drain_item dl gd ?p item)))"
      using drain_item_watermark [of ?p dl gd item] by (simp add: watermark_kept_def)
    show ?thesis
    proof (cases "drain_item dl gd ?p item")
      case (Continue s')
      from 1 [OF Cons Continue] w Continue Cons show ?thesis
        by (subst download_queue.simps) (auto intro: watermark_kept_trans)
    next
      case (Stopped s')
      with w Cons show ?thesis by (subst download_queue.simps) simp
    next
      case (Raised e s')
      with w Cons show ?thesis by (subst download_queue.simps) simp
    qed
  qed
qed

lemma download_queue_entries:
  "entries (feed_state (snd (download_queue dl gd s))) = entries (feed_state s)"
proof (induction dl gd s rule: download_queue.induct)
  case (1 dl gd s)
  show ?case
  proof (cases "queue (feed_state s)")
    case Nil
    then show ?thesis by (simp add: download_queue.simps)
  next
    case (Cons item rest)
    let ?p = "s\<lparr>feed_state := (feed_state s)\<lparr>queue := rest\<rparr>\<rparr>"
    have w: "entries (feed_state (step_sub (drain_item dl gd ?p item))) = entries (feed_state s)"
      using drain_item_entries [of dl gd ?p item] by simp
    show ?thesis
    proof (cases "drain_item dl gd ?p item")
      case (Continue s')
      from 1 [OF Cons Continue] w Continue Cons show ?thesis
        by (subst download_queue.simps) auto
    next
      case (Stopped s')
      with w Cons show ?thesis by (subst download_queue.simps) simp
    next
      case (Raised e s')
      with w Cons show ?thesis by (subst download_queue.simps) simp
    qed
  qed
qed

lemma download_queue_inv:
  "keys_ok (feed_state s) \<Longrightarrow> queue_ok (feed_state s) \<Longrightarrow>
     keys_ok (feed_state (snd (download_queue dl gd s)))
     \<and> queue_ok (feed_state (snd (download_queue dl gd s)))"
proof (induction dl gd s rule: download_queue.induct)
  case (1 dl gd s)
  show ?case
  proof (cases "queue (feed_state s)")
    case Nil
    with 1 show ?thesis by (simp add: download_queue.simps)
  next
    case (Cons item rest)
    let ?p = "s\<lparr>feed_state := (feed_state s)\<lparr>queue := rest\<rparr>\<rparr>"
    from Cons "1.prems" have pk: "keys_ok (feed_state ?p)" and pq: "queue_ok (feed_state ?p)"
      and pi: "fst item \<le> int (length (entries (feed_state ?p)))"
      by (simp_all add: keys_ok_def queue_ok_def)
    note k = drain_item_keys_ok [OF pk pi, of dl gd]
    note q = drain_item_queue_ok [OF pq pi, of dl gd]
    show ?thesis
    proof (cases "drain_item dl gd ?p item")
      case (Continue s')
      with k q have "keys_ok (feed_state s')" "queue_ok (feed_state s')" by simp_all
      from 1(1) [OF Cons Continue this] Continue Cons show ?thesis
        by (subst (1 2) download_queue.simps) simp
    next
      case (Stopped s')
      with k q Cons show ?thesis by (subst (1 2) download_queue.simps) simp
    next
      case (Raised e s')
      with k q Cons show ?thesis by (subst (1 2) download_queue.simps) simp
    qed
  qed
qed

lemma plan_update_entries:
  "entries (feed_state (plan_sub (plan_update s))) = entries (feed_state s)"
  by (auto simp: plan_update_def queue_new_entries_def set_latest_def Let_def
      split: option.splits)

lemma plan_update_dict:
  "entries_state_dict (feed_state (plan_sub (plan_update s))) = entries_state_dict (feed_state s)"
  by (auto simp: plan_update_def queue_new_entries_def set_latest_def Let_def
      split: option.splits)

lemma plan_update_watermark:
  "watermark_kept (feed_state s) (feed_state (plan_sub (plan_update s)))"
  by (auto simp: plan_update_def queue_new_entries_def set_latest_def Let_def watermark_kept_def
      split: option.splits)

lemma plan_update_keys_ok:
  "keys_ok (feed_state s) \<Longrightarrow> keys_ok (feed_state (plan_sub (plan_update s)))"
  by (simp add: keys_ok_def plan_update_entries plan_update_dict)

lemma queue_new_entries_queue_ok:
  "queue_ok (feed_state s) \<Longrightarrow> queue_ok (feed_state (plan_sub (queue_new_entries s latest)))"
  by (auto simp: queue_new_entries_def Let_def queue_ok_def)

lemma plan_update_queue_ok:
  "queue_ok (feed_state s) \<Longrightarrow> queue_ok (feed_state (plan_sub (plan_update s)))"
proof -
  assume q: "queue_ok (feed_state s)"
  have a: "\<And>n. queue_ok (feed_state (set_latest s n))"
    using q by (simp add: queue_ok_def set_latest_def)
  have b: "\<And>n c. queue_ok (feed_state (set_latest (s\<lparr>backlog_limit := Some c\<rparr>) n))"
    using q by (simp add: queue_ok_def set_latest_def)
  show ?thesis
    using q a b
    by (auto simp: plan_update_def Let_def queue_new_entries_queue_ok split: option.splits)
qed

lemma enqueue_watermark:
  "watermark_kept (feed_state s) (feed_state (snd (enqueue s nums)))"
  by (simp add: enqueue_def Let_def watermark_kept_def split: option.splits)

lemma enqueue_keys_ok:
  "keys_ok (feed_state s) \<Longrightarrow> keys_ok (feed_state (snd (enqueue s nums)))"
  by (simp add: enqueue_def Let_def keys_ok_def)

lemma enqueue_queue_ok:
  "queue_ok (feed_state s) \<Longrightarrow> queue_ok (feed_state (snd (enqueue s nums)))"
  by (auto simp: enqueue_def Let_def queue_ok_def)

text \<open>
  Both conditions hold when a feed has been loaded into a new feed state.
\<close>

lemma fresh_feed_state_invariant:
  "keys_ok (load_rss_info FeedState_init p) \<and> queue_ok (load_rss_info FeedState_init p)"
  by (simp add: keys_ok_def queue_ok_def load_rss_info_def FeedState_init_def)

text \<open>
  C9. The claim: planning and enqueueing in \<open>attempt_update\<close>, the drain of
  \<open>download_queue\<close> and \<open>enqueue\<close> each keep the watermark from decreasing
  once it is set, and keep every key of \<open>entries_state_dict\<close> below the number of
  entries. The first half holds for all three. The second holds for planning and
  for \<open>enqueue\<close>, which do not touch the dict; the drain keeps it when every
  queued index is at most the number of entries, a condition that the three
  operations themselves keep. Whatever way the drain ends (normally, after an
  interrupt, or with an exception), the statement is about the state it leaves.
\<close>

theorem feed_state_invariant:
  "watermark_kept (feed_state s) (feed_state (plan_sub (plan_update s)))
   \<and> watermark_kept (feed_state s) (feed_state (snd (download_queue dl gd s)))
   \<and> watermark_kept (feed_state s) (feed_state (snd (enqueue s nums)))
   \<and> (keys_ok (feed_state s) \<longrightarrow>
        keys_ok (feed_state (plan_sub (plan_update s)))
        \<and> keys_ok (feed_state (snd (enqueue s nums))))
   \<and> (keys_ok (feed_state s) \<and> queue_ok (feed_state s) \<longrightarrow>
        keys_ok (feed_state (snd (download_queue dl gd s)))
        \<and> queue_ok (feed_state (snd (download_queue dl gd s))))
   \<and> (queue_ok (feed_state s) \<longrightarrow>
        queue_ok (feed_state (plan_sub (plan_update s)))
        \<and> queue_ok (feed_state (snd (enqueue s nums))))"
  using plan_update_watermark [of s] download_queue_watermark [of s dl gd]
    enqueue_watermark [of s nums] plan_update_keys_ok [of s] enqueue_keys_ok [of s nums]
    download_queue_inv [of s dl gd] plan_update_queue_ok [of s] enqueue_queue_ok [of s nums]
  by blast

theorem feed_state_invariant_witness:
  "keys_ok (feed_state marked_sub) \<and> queue_ok (feed_state marked_sub)
   \<and> watermark_kept (feed_state marked_sub)
        (feed_state (snd (download_queue dl_ok dest_join marked_sub)))
   \<and> keys_ok (feed_state (plan_sub (plan_update marked_sub)))
   \<and> keys_ok (feed_state (snd (enqueue marked_sub [1, 7])))
   \<and> keys_ok (feed_state (snd (download_queue dl_ok dest_join marked_sub)))
   \<and> queue_ok (feed_state (snd (download_queue dl_ok dest_join marked_sub)))
   \<and> queue_ok (feed_state (plan_sub (plan_update marked_sub)))
   \<and> queue_ok (feed_state (snd (enqueue marked_sub [1, 7])))"
proof -
  have k: "keys_ok (feed_state marked_sub)"
    by (simp add: marked_sub_def keys_ok_def fixture_defs)
  have q: "queue_ok (feed_state marked_sub)"
    by (simp add: marked_sub_def queue_ok_def fixture_defs)
  from k q feed_state_invariant [of marked_sub dl_ok dest_join "[1, 7]"]
  show ?thesis by blast
qed

text \<open>
  C9 without the condition on the queue: the drain does not keep the bound on the
  keys. With two entries and the item 3 queued, \<open>entry_age\<close> is \<open>-1\<close>, Python's
  negative index reads the last entry, the download succeeds, and key 2 is set.
  Such a queue arises when a feed comes back shorter than it was when the item
  was queued.
\<close>

theorem drain_breaks_keys_bound:
  "keys_ok (feed_state (fixture_sub 2 (Some 0) [(3, False)]))
   \<and> \<not> keys_ok (feed_state (snd (download_queue dl_ok dest_join
          (fixture_sub 2 (Some 0) [(3, False)]))))"
  by (simp add: fixture_defs download_queue.simps drain_item_def record_download_def
      py_index_def Let_def keys_ok_def)

section \<open>Status lines\<close>

lemma list_from_unset:
  "\<exists>sub \<in> set subs. latest_entry_number (feed_state sub) = None \<Longrightarrow>
     list_from subs i n = Inl TypeError"
proof (induction subs arbitrary: i)
  case Nil
  then show ?case by simp
next
  case (Cons sub subs)
  show ?case
  proof (cases "latest_entry_number (feed_state sub)")
    case None
    then show ?thesis by (simp add: get_status_def Let_def)
  next
    case (Some l)
    with Cons.prems have "\<exists>x \<in> set subs. latest_entry_number (feed_state x) = None"
      by auto
    from Cons.IH [OF this] Some show ?thesis
      by (simp add: get_status_def Let_def)
  qed
qed

lemma list_from_set:
  "\<forall>sub \<in> set subs. latest_entry_number (feed_state sub) \<noteq> None \<Longrightarrow>
     \<exists>lines. list_from subs i n = Inr lines \<and> length lines = length subs"
proof (induction subs arbitrary: i)
  case Nil
  then show ?case by simp
next
  case (Cons sub subs)
  then obtain l where l: "latest_entry_number (feed_state sub) = Some l" by auto
  from Cons obtain lines where "list_from subs (i + 1) n = Inr lines" "length lines = length subs"
    by fastforce
  with l show ?case by (simp add: get_status_def Let_def)
qed

lemma get_status_example:
  "get_status (fixture_sub 10 (Some 9) []) 0 12 =
     Inr (''01/12 - '' @ [CHR 0x27] @ ''testfeed'' @ [CHR 0x27] @ '' |8|'')"
  by (simp add: get_status_def fixture_defs py_str_def zfill_def str_nat.simps digit_char_def
      Let_def)

text \<open>
  C10. For a subscription whose watermark is still unset, \<open>get_status\<close> computes
  \<open>latest_entry_number - 1\<close> on \<open>None\<close> and fails with a type error; with the
  watermark set it returns a status line. \<open>Config.list\<close> calls it for each
  subscription, so the command fails as soon as one subscription has no watermark
  and logs one line per subscription otherwise.
\<close>

theorem get_status_needs_watermark:
  "(latest_entry_number (feed_state s) = None \<longrightarrow> get_status s index total_subs = Inl TypeError)
   \<and> (latest_entry_number (feed_state s) \<noteq> None \<longrightarrow>
        (\<exists>line. get_status s index total_subs = Inr line))
   \<and> ((\<exists>sub \<in> set subs. latest_entry_number (feed_state sub) = None) \<longrightarrow>
        config_list subs = Inl TypeError)
   \<and> ((\<forall>sub \<in> set subs. latest_entry_number (feed_state sub) \<noteq> None) \<longrightarrow>
        (\<exists>lines. config_list subs = Inr lines \<and> length lines = length subs))"
  using list_from_unset [of subs 0 "int (length subs)"] list_from_set [of subs 0 "int (length subs)"]
  by (auto simp: get_status_def Let_def config_list_def)

theorem get_status_needs_watermark_witness:
  "latest_entry_number (feed_state (fixture_sub 10 None [])) = None
   \<and> get_status (fixture_sub 10 None []) 0 2 = Inl TypeError
   \<and> latest_entry_number (feed_state (fixture_sub 10 (Some 9) [])) \<noteq> None
   \<and> (\<exists>line. get_status (fixture_sub 10 (Some 9) []) 0 2 = Inr line)
   \<and> config_list [fixture_sub 10 (Some 9) [], fixture_sub 10 None []] = Inl TypeError
   \<and> (\<exists>lines. config_list [fixture_sub 10 (Some 9) []] = Inr lines \<and> length lines = 1)"
  using get_status_needs_watermark [of "fixture_sub 10 None []" 0 2
      "[fixture_sub 10 (Some 9) [], fixture_sub 10 None []]"]
    get_status_needs_watermark [of "fixture_sub 10 (Some 9) []" 0 2 "[fixture_sub 10 (Some 9) []]"]
  by (simp add: fixture_defs)

section \<open>Bounded retrieval\<close>

lemma get_feed_over_limit:
  "attempt_count > MAX_RECURSIVE_ATTEMPTS \<Longrightarrow> get_feed net (s, k) attempt_count = (FAILURE, s, k)"
  by (simp add: get_feed.simps)

lemma get_feed_calls_aux:
  "nat (MAX_RECURSIVE_ATTEMPTS + 1 - attempt_count) = n \<Longrightarrow>
     k \<le> snd (snd (get_feed net (s, k) attempt_count))
     \<and> snd (snd (get_feed net (s, k) attempt_count)) \<le> k + n"
proof (induction n arbitrary: s k attempt_count)
  case 0
  then have "attempt_count > MAX_RECURSIVE_ATTEMPTS" by simp
  then show ?case by (simp add: get_feed_over_limit)
next
  case (Suc n)
  then have le: "\<not> attempt_count > MAX_RECURSIVE_ATTEMPTS"
    and n: "nat (MAX_RECURSIVE_ATTEMPTS + 1 - (attempt_count + 1)) = n"
    by simp_all
  have rec: "\<And>s' r s3 k3. get_feed net (s', Suc k) (attempt_count + 1) = (r, s3, k3)
      \<Longrightarrow> Suc k \<le> k3 \<and> k3 \<le> Suc k + n"
    using Suc.IH [OF n] by (metis snd_conv)
  show ?case
    using le
    by (subst (1 2) get_feed.simps)
      (auto simp: Let_def split: option.splits prod.splits dest!: rec)
qed

lemma redirect_loop_gives_up:
  "get_feed looping_server (origin_sub, 0) 0 = (FAILURE, origin_sub, 11)"
  by (simp add: get_feed.simps server_defs fixture_defs feedparser_parse_with_options_def
      handle_http_codes_def MAX_RECURSIVE_ATTEMPTS_def Let_def)

text \<open>
  C8. \<open>get_feed\<close> terminates on every input: it is a total function, the
  recursion being justified by the measure \<open>11 - attempt_count\<close>, since the only
  recursive call is the one for \<open>ATTEMPT_AGAIN\<close>, with \<open>attempt_count + 1\<close>. A
  call with \<open>attempt_count > 10\<close> returns \<open>FAILURE\<close> with the subscription (so
  also its entries) and the number of network calls unchanged; and no call makes
  more than \<open>11 - attempt_count\<close> network calls, whatever the network answers.
\<close>

theorem get_feed_bounded:
  "(attempt_count > 10 \<longrightarrow> get_feed net (s, k) attempt_count = (FAILURE, s, k))
   \<and> k \<le> snd (snd (get_feed net (s, k) attempt_count))
   \<and> snd (snd (get_feed net (s, k) attempt_count)) \<le> k + nat (11 - attempt_count)"
  using get_feed_over_limit [of attempt_count net s k]
    get_feed_calls_aux [of attempt_count "nat (11 - attempt_count)" k net s]
  by (simp add: MAX_RECURSIVE_ATTEMPTS_def)

theorem get_feed_bounded_witness:
  "(11::int) > 10
   \<and> get_feed looping_server (origin_sub, 0) 11 = (FAILURE, origin_sub, 0)
   \<and> entries (feed_state (fst (snd (get_feed looping_server (origin_sub, 0) 11)))) = []
   \<and> snd (snd (get_feed looping_server (origin_sub, 0) 0)) \<le> 11"
  using get_feed_bounded [of 11 looping_server origin_sub 0]
    get_feed_bounded [of 0 looping_server origin_sub 0]
  by (simp add: server_defs fixture_defs)

section \<open>Redirects\<close>

text \<open>
  The four URL tests of the repository, on the model: after a temporary redirect
  the URL is unchanged, after a permanent one it is the target, after 404 it is
  unchanged, and after 410 it is \<open>None\<close> with the provided URL kept.
\<close>

lemma url_tests_of_the_repository:
  "current_url (fst (snd (get_feed url_test_server (url_test_sub ''302'', 0) 0))) = Some ''302''
   \<and> current_url (fst (snd (get_feed url_test_server (url_test_sub ''301'', 0) 0))) = Some ''valid''
   \<and> current_url (fst (snd (get_feed url_test_server (url_test_sub ''404'', 0) 0))) = Some ''404''
   \<and> current_url (fst (snd (get_feed url_test_server (url_test_sub ''410'', 0) 0))) = None
   \<and> provided_url (fst (snd (get_feed url_test_server (url_test_sub ''410'', 0) 0))) = ''410''"
  by (simp add: get_feed.simps server_defs fixture_defs
      feedparser_parse_with_options_def handle_http_codes_def load_rss_info_def
      MAX_RECURSIVE_ATTEMPTS_def Let_def)

text \<open>
  Two general facts about the URL fields. A \<open>temp_url\<close> that is set stays set
  through \<open>get_feed\<close>. And when the first answer of a call is a temporary
  redirect, the call ends with \<open>current_url\<close> back at the URL it started from and
  with \<open>temp_url\<close> still set.
\<close>

lemma parse_with_options_urls:
  "feedparser_parse_with_options net k url s = ((p, code), s1) \<Longrightarrow>
     temp_url s1 = temp_url s \<and> current_url s1 = current_url s"
  by (auto simp: feedparser_parse_with_options_def Let_def split: if_splits)

lemma handle_http_codes_temp_url:
  "handle_http_codes s p = (code, s2) \<Longrightarrow> current_url s \<noteq> None \<Longrightarrow> temp_url s \<noteq> None
     \<Longrightarrow> temp_url s2 \<noteq> None"
  by (auto simp: handle_http_codes_def split: option.splits if_splits)

lemma get_feed_temp_url_aux:
  "nat (MAX_RECURSIVE_ATTEMPTS + 1 - attempt_count) = n \<Longrightarrow> temp_url s \<noteq> None \<Longrightarrow>
     temp_url (fst (snd (get_feed net (s, k) attempt_count))) \<noteq> None"
proof (induction n arbitrary: s k attempt_count)
  case 0
  then have "attempt_count > MAX_RECURSIVE_ATTEMPTS" by simp
  with 0 show ?case by (simp add: get_feed_over_limit)
next
  case (Suc n)
  then have le: "\<not> attempt_count > MAX_RECURSIVE_ATTEMPTS"
    and n: "nat (MAX_RECURSIVE_ATTEMPTS + 1 - (attempt_count + 1)) = n"
    by simp_all
  have rec: "\<And>s' r s3 k3. get_feed net (s', Suc k) (attempt_count + 1) = (r, s3, k3)
      \<Longrightarrow> temp_url s' \<noteq> None \<Longrightarrow> temp_url s3 \<noteq> None"
    using Suc.IH [OF n] by (metis fst_conv snd_conv)
  show ?case
    using le Suc.prems(2)
    by (subst get_feed.simps)
      (auto simp: Let_def split: option.splits prod.splits
        dest!: parse_with_options_urls dest: handle_http_codes_temp_url rec)
qed

lemma temporary_redirect_restores_url:
  assumes "attempt_count \<le> 10"
    and "current_url s = Some url" and "url \<noteq> []"
    and "feedparser_parse_with_options net k url s = ((p, SUCCESS), s1)"
    and "p_status p = Some status" and "status \<in> {302, 303, 307}"
  shows "current_url (fst (snd (get_feed net (s, k) attempt_count))) = Some url
         \<and> temp_url (fst (snd (get_feed net (s, k) attempt_count))) \<noteq> None"
proof -
  let ?s2 = "s1\<lparr>temp_url := current_url s1, current_url := Some (p_href p)\<rparr>"
  from assms have h: "handle_http_codes s1 p = (ATTEMPT_AGAIN, ?s2)"
    by (auto simp: handle_http_codes_def)
  from parse_with_options_urls [OF assms(4)] assms(2)
  have c1: "current_url s1 = Some url" by simp
  obtain r s3 k3 where g: "get_feed net (?s2, Suc k) (attempt_count + 1) = (r, s3, k3)"
    by (metis prod_cases3)
  have "temp_url ?s2 \<noteq> None" using c1 by simp
  from get_feed_temp_url_aux [OF refl this, where attempt_count = "attempt_count + 1"
      and net = net and k = "Suc k"] g
  have t3: "temp_url s3 \<noteq> None" by simp
  have "get_feed net (s, k) attempt_count = (r, s3\<lparr>current_url := Some url\<rparr>, k3)"
    using assms(1-4) h g c1
    by (subst get_feed.simps) (simp add: MAX_RECURSIVE_ATTEMPTS_def Let_def)
  with t3 show ?thesis by simp
qed

text \<open>
  C5. The claim: after an update cycle that met a temporary redirect,
  \<open>current_url\<close> is back at its value from before the redirect and \<open>temp_url\<close> is
  cleared, while a permanent redirect's new \<open>current_url\<close> persists. The code
  restores \<open>current_url\<close> but never clears \<open>temp_url\<close>, and every later
  \<open>ATTEMPT_AGAIN\<close> copies the stale \<open>temp_url\<close> back into \<open>current_url\<close>. Two
  cycles against \<open>moving_server\<close>: the first (302 from \<open>u0\<close> to \<open>u1\<close>, then
  200) ends with \<open>current_url = u0\<close> and \<open>temp_url = u0\<close>; the second (301 from
  \<open>u0\<close> to \<open>u2\<close>, then 200) ends with \<open>current_url = u0\<close> again, so the
  permanent redirect to \<open>u2\<close> did not persist.
\<close>

theorem stale_temp_url_undoes_permanent_redirect:
  "(case get_feed moving_server (origin_sub, 0) 0 of
      (r1, s1, k1) \<Rightarrow>
        r1 = SUCCESS \<and> current_url s1 = Some ''u0'' \<and> temp_url s1 = Some ''u0'' \<and> k1 = 2
        \<and> (case get_feed moving_server (s1, k1) 0 of
              (r2, s2, k2) \<Rightarrow> r2 = SUCCESS \<and> current_url s2 = Some ''u0'' \<and> k2 = 4))"
  by (simp add: get_feed.simps server_defs fixture_defs feedparser_parse_with_options_def
      handle_http_codes_def load_rss_info_def MAX_RECURSIVE_ATTEMPTS_def Let_def)

section \<open>Loading the cache\<close>

text \<open>
  No cache with a record in it loads: the first record ends the method with
  \<open>AttributeError\<close>, and the by-URL table stays as it was.
\<close>

lemma cache_load_aborts:
  "ds \<noteq> [] \<Longrightarrow>
     fst (load_cache_settings c ds) = Some AttributeError
     \<and> by_url (snd (load_cache_settings c ds)) = by_url c"
  by (cases ds) (auto split: option.splits)

lemma undecodable_record_aborts_load:
  "\<exists>d \<in> set ds. decode_subscription d = None \<Longrightarrow>
     fst (load_cache_settings c ds) = Some AttributeError"
  by (cases ds) (auto split: option.splits)

text \<open>
  With the nameless record first, it is \<open>None.name\<close> on line 310 that ends the
  load: nothing has been entered, and the well-formed record after it is not read.
\<close>

lemma nameless_record_first:
  "load_cache_settings cache_map_init [nameless_record, good_record ''b'' ''u3''] =
     (Some AttributeError, cache_map_init)"
  by (simp add: cache_defs)

text \<open>
  C3. The claim: a cache record that lacks its name, current URL or provided URL
  fails alone; it is skipped and every other well-formed record is entered into
  both tables. \<open>decode_subscription\<close> returns \<open>None\<close> for such a record instead
  of raising the \<open>MalformedSubscriptionError\<close> that \<open>_load_cache_settings\<close> is
  prepared to catch, and the next line reads \<open>decoded_sub.name\<close>: the load ends
  with \<open>AttributeError\<close>. For the records \<open>a\<close>, a nameless one and \<open>b\<close>, the
  record \<open>a\<close> is entered and the well-formed record \<open>b\<close> is not. (On these three
  records the exception comes from line 311 already, for the record \<open>a\<close>; the lemma
  above takes the nameless record first.)
\<close>

theorem nameless_record_aborts_cache_load:
  "fst (load_cache_settings cache_map_init
          [good_record ''a'' ''u1'', nameless_record, good_record ''b'' ''u3'']) = Some AttributeError
   \<and> by_name (snd (load_cache_settings cache_map_init
          [good_record ''a'' ''u1'', nameless_record, good_record ''b'' ''u3''])) ''a'' = Some 0
   \<and> by_name (snd (load_cache_settings cache_map_init
          [good_record ''a'' ''u1'', nameless_record, good_record ''b'' ''u3''])) ''b'' = None
   \<and> by_url (snd (load_cache_settings cache_map_init
          [good_record ''a'' ''u1'', nameless_record, good_record ''b'' ''u3''])) ''u3'' = None"
  by (simp add: cache_defs)

section \<open>Reconciling the user's subscriptions with the cache\<close>

text \<open>
  The settings of a \<open>Config\<close> never get the key \<open>download_backlog\<close>: they start
  without it, and a key of the user's file is stored only where the settings have
  it already.
\<close>

lemma store_settings_download_backlog:
  "st_download_backlog st = None \<Longrightarrow> st_download_backlog (store_settings st y) = None"
  by (simp add: store_settings_def)

text \<open>
  So the parser fails on the first entry of the user's file that has a name and a
  URL, and \<open>load_state\<close> with it, before the cache is read and before the merge loop
  is entered.
\<close>

lemma parse_subscriptions_KeyError:
  "st_download_backlog st = None \<Longrightarrow> \<exists>y \<in> set ys. y_name y \<noteq> None \<and> y_url y \<noteq> None \<Longrightarrow>
     parse_subscriptions st ys = Inl KeyError"
proof (induction ys)
  case Nil
  then show ?case by simp
next
  case (Cons y ys)
  show ?case
  proof (cases "y_name y \<noteq> None \<and> y_url y \<noteq> None")
    case True
    with Cons.prems(1) show ?thesis
      by (auto simp: parse_from_user_yaml_def)
  next
    case False
    with Cons.prems(2) have "\<exists>z \<in> set ys. y_name z \<noteq> None \<and> y_url z \<noteq> None"
      by auto
    from Cons.IH [OF Cons.prems(1) this] False show ?thesis
      by (auto simp: parse_from_user_yaml_def split: option.splits)
  qed
qed

lemma load_state_KeyError:
  assumes "st_download_backlog st = None"
    and "\<exists>y \<in> set (c_subscriptions yaml). y_name y \<noteq> None \<and> y_url y \<noteq> None"
  shows "load_state st c (Some yaml) cache_records = Inl KeyError"
  using parse_subscriptions_KeyError [OF store_settings_download_backlog [OF assms(1)] assms(2)]
  by (simp add: load_state_def load_user_settings_def)

text \<open>
  Whatever the settings: \<open>load_state\<close> never returns with a subscription in its
  list, since the merge loop does not get past line 115.
\<close>

lemma load_state_no_subscriptions:
  "load_state st c yaml_settings cache_records = Inr (st', c', subs) \<Longrightarrow> subs = []"
  by (auto simp: load_state_def split: sum.splits prod.splits option.splits if_splits)

text \<open>
  C4. The claim: during reconciliation a user-config subscription adopts the feed
  state of the cached subscription of its name, or else of its URL, or else starts
  with an empty feed state, and carries the user's name, URL and directory. The
  comments of lines 98-106 say the same, but the code does not get there. With the
  subscription \<open>a\<close> in the cache and one entry for \<open>a\<close> in the user's file,
  \<open>load_state\<close> ends with the \<open>KeyError\<close> of line 141: no subscription is built and
  no feed state is adopted.
\<close>

theorem load_state_fails_before_reconciliation:
  "load_state (Config_settings ''data'') cache_map_init
     (Some (user_file [user_entry ''a'' ''u2''])) [good_record ''a'' ''u1''] = Inl KeyError"
  by (simp add: load_state_def user_defs)

end
